theory Spec2Isabelle
  imports Main "HOL-Library.Log_Nat"
begin

section \<open>JavaScript strings\<close>

text \<open>
  A JavaScript string is modelled as a \<open>string\<close>, each \<open>char\<close> standing for one
  code unit in the range U+0000 to U+00FF. The form fields the program reads
  (\<open>e.target.value\<close>) are always strings; the empty string is the only falsy one.
\<close>

definition isDigit :: "char \<Rightarrow> bool" where
  \<comment> \<open>the character class \<open>[0-9]\<close>\<close>
  "isDigit c = (let n = (of_char c :: nat) in 48 \<le> n \<and> n \<le> 57)"

definition digitVal :: "char \<Rightarrow> int" where
  "digitVal c = (of_char c :: int) - 48"

definition digitChar :: "int \<Rightarrow> char" where
  "digitChar d = char_of (48 + d)"

definition isWhiteSpace :: "char \<Rightarrow> bool" where
  \<comment> \<open>WhiteSpace and LineTerminator code units below U+0100: TAB, LF, VT, FF, CR, SP, NBSP\<close>
  "isWhiteSpace c = ((of_char c :: nat) \<in> {9, 10, 11, 12, 13, 32, 160})"

definition trim :: "string \<Rightarrow> string" where
  \<comment> \<open>\<open>String.prototype.trim\<close>\<close>
  "trim s = rev (dropWhile isWhiteSpace (rev (dropWhile isWhiteSpace s)))"

definition toLowerCaseChar :: "char \<Rightarrow> char" where
  \<comment> \<open>A-Z, and the Latin-1 capitals U+00C0..U+00DE except U+00D7, move up by 32\<close>
  "toLowerCaseChar c =
     (let n = (of_char c :: nat)
      in if (65 \<le> n \<and> n \<le> 90) \<or> (192 \<le> n \<and> n \<le> 222 \<and> n \<noteq> 215)
         then char_of (n + 32) else c)"

definition toLowerCase :: "string \<Rightarrow> string" where
  \<comment> \<open>\<open>String.prototype.toLowerCase\<close>\<close>
  "toLowerCase s = map toLowerCaseChar s"

definition padStart :: "nat \<Rightarrow> string \<Rightarrow> string \<Rightarrow> string" where
  \<comment> \<open>\<open>s.padStart(targetLength, padString)\<close>\<close>
  "padStart targetLength padString s =
     (if targetLength \<le> length s \<or> padString = [] then s
      else take (targetLength - length s)
             (concat (replicate (targetLength - length s) padString)) @ s)"

definition substring_from :: "nat \<Rightarrow> string \<Rightarrow> string" where
  \<comment> \<open>\<open>s.substring(start)\<close>: the empty string when \<open>start\<close> is past the end\<close>
  "substring_from start s = drop start s"

definition removeDashes :: "string \<Rightarrow> string" where
  \<comment> \<open>\<open>s.replace(/-/g, '')\<close>\<close>
  "removeDashes s = filter (\<lambda>c. c \<noteq> CHR ''-'') s"

definition keepDigits :: "string \<Rightarrow> string" where
  \<comment> \<open>\<open>s.replace(/[^0-9]/g, '')\<close>\<close>
  "keepDigits s = filter isDigit s"

function digitsOfInt :: "int \<Rightarrow> string" where
  \<comment> \<open>the decimal digits of a non-negative integer, no leading zero\<close>
  "digitsOfInt n = (if n < 10 then [digitChar n] else digitsOfInt (n div 10) @ [digitChar (n mod 10)])"
  by pat_completeness auto
termination
  by (relation "measure nat") auto

declare digitsOfInt.simps [simp del]

definition intOfDigits :: "string \<Rightarrow> int" where
  \<comment> \<open>the mathematical value of a run of decimal digits\<close>
  "intOfDigits ds = foldl (\<lambda>a c. 10 * a + digitVal c) 0 ds"


section \<open>JavaScript numbers\<close>

text \<open>
  A Number is NaN, an infinity, or a finite double, kept as the rational it denotes.
  The sign of zero is dropped: every operation below gives the same result on both
  zeros. Arithmetic rounds to the nearest double, ties to even.
\<close>

datatype jsnum = NaN | PosInf | NegInf | Fin rat

datatype js_error = TypeError | RangeError

definition pow2 :: "int \<Rightarrow> rat" where
  "pow2 k = (if 0 \<le> k then 2 ^ nat k else 1 / 2 ^ nat (- k))"

definition pow10 :: "int \<Rightarrow> rat" where
  "pow10 k = (if 0 \<le> k then 10 ^ nat k else 1 / 10 ^ nat (- k))"

definition ilog2 :: "rat \<Rightarrow> int" where
  \<comment> \<open>the binary exponent of a positive rational: \<open>2 ^ ilog2 a \<le> a < 2 ^ (ilog2 a + 1)\<close>\<close>
  "ilog2 a = (if 1 \<le> a then bitlen \<lfloor>a\<rfloor> - 1 else - bitlen (\<lceil>1 / a\<rceil> - 1))"

definition roundHalfEven :: "rat \<Rightarrow> int" where
  "roundHalfEven m =
     (let fl = \<lfloor>m\<rfloor>; fr = m - of_int fl
      in if fr < 1 / 2 then fl else if 1 / 2 < fr then fl + 1
         else if even fl then fl else fl + 1)"

definition roundDouble :: "rat \<Rightarrow> jsnum" where
  \<comment> \<open>binary64: 53 significant bits, least exponent -1022, overflow at \<open>2 ^ 1024\<close>\<close>
  "roundDouble q =
     (if q = 0 then Fin 0
      else let a = \<bar>q\<bar>;
               e = max (ilog2 a) (- 1022);
               ulp = pow2 (e - 52);
               r = of_int (roundHalfEven (a / ulp)) * ulp
           in if pow2 1024 \<le> r then (if q < 0 then NegInf else PosInf)
              else Fin (if q < 0 then - r else r))"

fun jsneg :: "jsnum \<Rightarrow> jsnum" where
  "jsneg NaN = NaN"
| "jsneg PosInf = NegInf"
| "jsneg NegInf = PosInf"
| "jsneg (Fin q) = Fin (- q)"

fun jsmul :: "jsnum \<Rightarrow> jsnum \<Rightarrow> jsnum" where
  "jsmul NaN y = NaN"
| "jsmul x NaN = NaN"
| "jsmul (Fin a) (Fin b) = roundDouble (a * b)"
| "jsmul (Fin a) PosInf = (if a = 0 then NaN else if 0 < a then PosInf else NegInf)"
| "jsmul (Fin a) NegInf = (if a = 0 then NaN else if 0 < a then NegInf else PosInf)"
| "jsmul PosInf (Fin b) = (if b = 0 then NaN else if 0 < b then PosInf else NegInf)"
| "jsmul NegInf (Fin b) = (if b = 0 then NaN else if 0 < b then NegInf else PosInf)"
| "jsmul PosInf PosInf = PosInf"
| "jsmul PosInf NegInf = NegInf"
| "jsmul NegInf PosInf = NegInf"
| "jsmul NegInf NegInf = PosInf"

definition parseExponent :: "string \<Rightarrow> int" where
  \<comment> \<open>the value of an ExponentPart at the head of the text, 0 when there is none\<close>
  "parseExponent r =
     (case r of
        [] \<Rightarrow> 0
      | c # r1 \<Rightarrow>
          if c = CHR ''e'' \<or> c = CHR ''E'' then
            (let neg = (r1 \<noteq> [] \<and> hd r1 = CHR ''-'');
                 r2 = (if r1 \<noteq> [] \<and> (hd r1 = CHR ''-'' \<or> hd r1 = CHR ''+'') then tl r1 else r1);
                 ds = takeWhile isDigit r2
             in if ds = [] then 0
                else if neg then - intOfDigits ds else intOfDigits ds)
          else 0)"

definition parseUnsigned :: "string \<Rightarrow> jsnum" where
  \<comment> \<open>the longest prefix that is a StrUnsignedDecimalLiteral, NaN when there is none\<close>
  "parseUnsigned t =
     (if take 8 t = ''Infinity'' then PosInf
      else let ip = takeWhile isDigit t;
               r1 = dropWhile isDigit t;
               hasDot = (r1 \<noteq> [] \<and> hd r1 = CHR ''.'');
               fp = (if hasDot then takeWhile isDigit (tl r1) else []);
               r2 = (if hasDot then dropWhile isDigit (tl r1) else r1)
           in if ip = [] \<and> fp = [] then NaN
              else roundDouble (of_int (intOfDigits (ip @ fp))
                                * pow10 (parseExponent r2 - int (length fp))))"

definition parseFloat :: "string \<Rightarrow> jsnum" where
  "parseFloat s =
     (let t = dropWhile isWhiteSpace s
      in case t of
           [] \<Rightarrow> NaN
         | c # r \<Rightarrow>
             if c = CHR ''-'' then jsneg (parseUnsigned r)
             else if c = CHR ''+'' then parseUnsigned r
             else parseUnsigned t)"

definition shortestCandidates :: "rat \<Rightarrow> nat \<Rightarrow> nat \<Rightarrow> int list" where
  \<comment> \<open>the integers \<open>s\<close> next to \<open>x / 10 ^ (n - k)\<close>, of \<open>k\<close> digits or the power of ten just
      above them, with \<open>s * 10 ^ (n - k)\<close> rounding to the double \<open>x\<close>\<close>
  "shortestCandidates x n k =
     (let scale = pow10 (int n - int k); lo = \<lfloor>x / scale\<rfloor>
      in filter (\<lambda>s. 10 ^ (k - 1) \<le> s \<and> s \<le> 10 ^ k \<and> roundDouble (of_int s * scale) = Fin x)
           [lo, lo + 1])"

definition closestCandidate :: "rat \<Rightarrow> nat \<Rightarrow> nat \<Rightarrow> int list \<Rightarrow> int" where
  "closestCandidate x n k cs =
     (let scale = pow10 (int n - int k); d = (\<lambda>s. \<bar>of_int s * scale - x\<bar>)
      in case cs of
           [a, b] \<Rightarrow> if d a < d b then a else if d b < d a then b else if even a then a else b
         | a # _ \<Rightarrow> a
         | [] \<Rightarrow> \<lfloor>x / scale\<rfloor>)"

definition numberToStringLarge :: "rat \<Rightarrow> string" where
  \<comment> \<open>Number::toString for a double \<open>x \<ge> 10 ^ 21\<close>: the fewest digits \<open>s\<close> with
      \<open>s * 10 ^ (n - k)\<close> rounding to \<open>x\<close>, in exponent notation. \<open>n0\<close> counts the digits of
      the integer part; when the digits round up to a power of ten, \<open>n\<close> is one more.\<close>
  "numberToStringLarge x =
     (let n0 = length (digitsOfInt \<lfloor>x\<rfloor>);
          k = (case filter (\<lambda>k. shortestCandidates x n0 k \<noteq> []) [1..<18] of
                 [] \<Rightarrow> 17 | k # _ \<Rightarrow> k);
          s0 = closestCandidate x n0 k (shortestCandidates x n0 k);
          s = (if s0 = 10 ^ k then 10 ^ (k - 1) else s0);
          n = (if s0 = 10 ^ k then n0 + 1 else n0);
          ds = digitsOfInt s;
          ex = ''e+'' @ digitsOfInt (int n - 1)
      in if k = 1 then ds @ ex else take 1 ds @ ''.'' @ drop 1 ds @ ex)"

definition toFixed :: "int \<Rightarrow> jsnum \<Rightarrow> js_error + string" where
  \<comment> \<open>\<open>x.toFixed(fractionDigits)\<close>\<close>
  "toFixed fractionDigits x =
     (if fractionDigits < 0 \<or> 100 < fractionDigits then Inl RangeError
      else case x of
             NaN \<Rightarrow> Inr ''NaN''
           | PosInf \<Rightarrow> Inr ''Infinity''
           | NegInf \<Rightarrow> Inr ''-Infinity''
           | Fin q \<Rightarrow>
               (let s = (if q < 0 then ''-'' else '''');
                    a = \<bar>q\<bar>;
                    f = nat fractionDigits
                in if 10 ^ 21 \<le> a then Inr (s @ numberToStringLarge a)
                   else let n = \<lfloor>a * 10 ^ f + 1 / 2\<rfloor>;
                            m = digitsOfInt n;
                            m = (if f \<noteq> 0 \<and> length m \<le> f
                                 then replicate (f + 1 - length m) CHR ''0'' @ m else m);
                            m = (if f \<noteq> 0
                                 then take (length m - f) m @ ''.'' @ drop (length m - f) m
                                 else m)
                        in Inr (s @ m)))"


section \<open>The GS1 element string of the item form\<close>

record formData =
  name :: string
  sku :: string
  uom :: string
  department :: string
  barcodeType :: string
  gtin :: string
  batchLot :: string
  expirationDate :: string
  serialNumber :: string
  sellByDate :: string
  bestBeforeDate :: string
  productionDate :: string
  weight :: string
  weightUnit :: string

definition buildGs1String :: "'a formData_scheme \<Rightarrow> js_error + string" where
  "buildGs1String f =
     (let gtinVal = (if gtin f \<noteq> [] then gtin f else padStart 14 ''0'' (sku f));
          gs1 = ''(01)'' @ gtinVal;
          gs1 = (if productionDate f \<noteq> []
                 then gs1 @ ''(11)'' @ substring_from 2 (removeDashes (productionDate f)) else gs1);
          gs1 = (if bestBeforeDate f \<noteq> []
                 then gs1 @ ''(15)'' @ substring_from 2 (removeDashes (bestBeforeDate f)) else gs1);
          gs1 = (if sellByDate f \<noteq> []
                 then gs1 @ ''(16)'' @ substring_from 2 (removeDashes (sellByDate f)) else gs1);
          gs1 = (if expirationDate f \<noteq> []
                 then gs1 @ ''(17)'' @ substring_from 2 (removeDashes (expirationDate f)) else gs1);
          gs1 = (if batchLot f \<noteq> [] then gs1 @ ''(10)'' @ batchLot f else gs1);
          gs1 = (if serialNumber f \<noteq> [] then gs1 @ ''(21)'' @ serialNumber f else gs1)
      in if weight f \<noteq> [] then
           (let weightAI = (if weightUnit f = ''kg'' then ''310'' else ''320'')
            in case toFixed 0 (jsmul (parseFloat (weight f)) (Fin 1000)) of
                 Inl e \<Rightarrow> Inl e
               | Inr t \<Rightarrow> Inr (gs1 @ ''('' @ weightAI @ ''3)'' @ padStart 6 ''0'' t))
         else Inr gs1)"


section \<open>Items, duplicate SKUs and saving the form\<close>

text \<open>
  A saved item is the form data with an \<open>id\<close> and, for the GS1 barcode types, the two
  GS1 strings. Catalog items carry no \<open>id\<close>; their absent text fields read as empty.
\<close>

record item = formData +
  item_id :: "string option"
  gs1String :: "string option"
  gs1Display :: "string option"
  isCustom :: bool
  isEdited :: bool

definition checkDuplicate :: "item list \<Rightarrow> item option \<Rightarrow> string \<Rightarrow> item option" where
  "checkDuplicate existingItems editItem s =
     (if s = [] then None
      else find (\<lambda>it. toLowerCase (sku it) = toLowerCase s \<and>
                       (case editItem of
                          None \<Rightarrow> True
                        | Some e \<Rightarrow> toLowerCase (sku it) \<noteq> toLowerCase (sku e)))
             existingItems)"

record form_errors =
  err_name :: "string option"
  err_sku :: "string option"

definition validate_errors :: "item list \<Rightarrow> item option \<Rightarrow> 'a formData_scheme \<Rightarrow> form_errors" where
  \<comment> \<open>the \<open>newErrors\<close> object that \<open>validate\<close> builds\<close>
  "validate_errors existingItems editItem f =
     (let e1 = (if trim (name f) = [] then Some ''Item name is required'' else None);
          e2 = (if trim (sku f) = [] then Some ''SKU is required'' else None);
          e2 = (if 50 < length (sku f) then Some ''SKU must be 50 characters or less'' else e2);
          e2 = (case checkDuplicate existingItems editItem (sku f) of
                  Some d \<Rightarrow> Some (''SKU already exists: '' @ [CHR 0x22] @ name d @ [CHR 0x22])
                | None \<Rightarrow> e2)
      in \<lparr>err_name = e1, err_sku = e2\<rparr>)"

definition validate :: "item list \<Rightarrow> item option \<Rightarrow> 'a formData_scheme \<Rightarrow> bool" where
  \<comment> \<open>\<open>Object.keys(newErrors).length === 0\<close>\<close>
  "validate existingItems editItem f =
     (let errs = validate_errors existingItems editItem f
      in err_name errs = None \<and> err_sku errs = None)"

definition isGs1Type :: "'a formData_scheme \<Rightarrow> bool" where
  "isGs1Type f =
     (barcodeType f = ''GS1 2D'' \<or> barcodeType f = ''GS1 QR'' \<or> barcodeType f = ''GS1-128'')"

definition handleSubmit ::
  "string \<Rightarrow> item list \<Rightarrow> item option \<Rightarrow> formData \<Rightarrow> js_error + item option" where
  \<comment> \<open>\<open>now\<close> is \<open>Date.now().toString()\<close>; the result is the item handed to \<open>onSave\<close>, if any\<close>
  "handleSubmit now existingItems editItem f =
     (if validate existingItems editItem f then
        (let itemData =
               \<lparr>name = name f, sku = sku f, uom = uom f, department = department f,
                barcodeType = barcodeType f, gtin = gtin f, batchLot = batchLot f,
                expirationDate = expirationDate f, serialNumber = serialNumber f,
                sellByDate = sellByDate f, bestBeforeDate = bestBeforeDate f,
                productionDate = productionDate f, weight = weight f,
                weightUnit = weightUnit f,
                item_id = Some (case editItem of
                                  None \<Rightarrow> now
                                | Some e \<Rightarrow> (case item_id e of
                                              None \<Rightarrow> now
                                            | Some i \<Rightarrow> if i \<noteq> [] then i else now)),
                gs1String = None, gs1Display = None, isCustom = False, isEdited = False\<rparr>
         in if isGs1Type f then
              (case buildGs1String f of
                 Inl e \<Rightarrow> Inl e
               | Inr s1 \<Rightarrow>
                   (case buildGs1String f of
                      Inl e \<Rightarrow> Inl e
                    | Inr s2 \<Rightarrow> Inr (Some (itemData\<lparr>gs1String := Some s1, gs1Display := Some s2\<rparr>))))
            else Inr (Some itemData))
      else Inr None)"


section \<open>Importing items\<close>

definition checkExistingDuplicate :: "item list \<Rightarrow> string \<Rightarrow> item option" where
  "checkExistingDuplicate existingItems s =
     find (\<lambda>it. toLowerCase (sku it) = toLowerCase s) existingItems"

datatype dup_reason = Exists | Batch

record dupe =
  dupe_item :: item
  conflictsWith :: "item option"
  reason :: dup_reason

definition previewStep :: "item list \<Rightarrow> dupe list \<times> string set \<Rightarrow> item \<Rightarrow> dupe list \<times> string set" where
  \<comment> \<open>the body of \<open>items.forEach\<close> in \<open>handlePreview\<close>, on \<open>(dupes, seenSkus)\<close>\<close>
  "previewStep existingItems st it =
     (let dupes = fst st; seenSkus = snd st;
          dupes = (case checkExistingDuplicate existingItems (sku it) of
                     Some e \<Rightarrow> dupes @ [\<lparr>dupe_item = it, conflictsWith = Some e, reason = Exists\<rparr>]
                   | None \<Rightarrow>
                       if toLowerCase (sku it) \<in> seenSkus
                       then dupes @ [\<lparr>dupe_item = it, conflictsWith = None, reason = Batch\<rparr>]
                       else dupes)
      in (dupes, insert (toLowerCase (sku it)) seenSkus))"

record import_state =
  preview :: "item list"
  duplicates :: "dupe list"
  error :: string

definition handlePreview :: "item list \<Rightarrow> item list \<Rightarrow> import_state" where
  \<comment> \<open>\<open>items\<close> is what \<open>parseCSV\<close> or \<open>parseJSON\<close> returned\<close>
  "handlePreview existingItems items =
     (if items = [] then \<lparr>preview = [], duplicates = [], error = ''No valid items found''\<rparr>
      else \<lparr>preview = items,
            duplicates = fst (foldl (previewStep existingItems) ([], {}) items),
            error = ''''\<rparr>)"

definition itemsToImport :: "import_state \<Rightarrow> item list" where
  "itemsToImport st =
     (let duplicateSkus = set (map (\<lambda>d. toLowerCase (sku (dupe_item d))) (duplicates st))
      in filter (\<lambda>it. toLowerCase (sku it) \<notin> duplicateSkus) (preview st))"

definition handleImport :: "import_state \<Rightarrow> import_state \<times> item list option" where
  \<comment> \<open>the new dialog state, and the list handed to \<open>onImport\<close>, if any\<close>
  "handleImport st =
     (if preview st \<noteq> [] then
        (if itemsToImport st = []
         then (st\<lparr>error := ''No unique items to import. All items are duplicates.''\<rparr>, None)
         else (\<lparr>preview = [], duplicates = [], error = error st\<rparr>, Some (itemsToImport st)))
      else (st, None))"

definition onImport :: "item list \<Rightarrow> item list \<Rightarrow> item list" where
  \<comment> \<open>\<open>setCustomItems(prev => [...prev, ...items.map(item => ({...item, isCustom: true}))])\<close>\<close>
  "onImport items customItems = customItems @ map (\<lambda>it. it\<lparr>isCustom := True\<rparr>) items"



section \<open>The linear barcode on a canvas\<close>

datatype draw_op =
  FillRect string int int int int
| FillText string string int int

record canvas =
  cwidth :: int
  cheight :: int
  drawn :: "draw_op list"

definition patterns :: "char \<Rightarrow> string option" where
  "patterns = map_of
     [(CHR ''0'', ''1110010''), (CHR ''1'', ''1100110''), (CHR ''2'', ''1101100''),
      (CHR ''3'', ''1000010''), (CHR ''4'', ''1011100''), (CHR ''5'', ''1001110''),
      (CHR ''6'', ''1010000''), (CHR ''7'', ''1000100''), (CHR ''8'', ''1001000''),
      (CHR ''9'', ''1110100'')]"

definition drawBit :: "int \<Rightarrow> int \<Rightarrow> int \<times> draw_op list \<Rightarrow> char \<Rightarrow> int \<times> draw_op list" where
  \<comment> \<open>the body of \<open>for (const bit of pattern)\<close>, on \<open>(x, drawn)\<close>\<close>
  "drawBit barWidth height st b =
     (let x = fst st; ops = snd st;
          ops = (if b = CHR ''1'' then ops @ [FillRect ''#000000'' x 0 barWidth height] else ops)
      in (x + barWidth, ops))"

definition drawDigit :: "int \<Rightarrow> int \<Rightarrow> int \<times> draw_op list \<Rightarrow> char \<Rightarrow> int \<times> draw_op list" where
  \<comment> \<open>the body of \<open>for (const digit of code)\<close>\<close>
  "drawDigit barWidth height st digit =
     (let pattern = (case patterns digit of
                       Some p \<Rightarrow> p
                     | None \<Rightarrow> the (patterns (CHR ''0'')));
          st = foldl (drawBit barWidth height) st pattern
      in (fst st + barWidth, snd st))"

definition Barcode_effect :: "canvas option \<Rightarrow> string \<Rightarrow> int \<Rightarrow> canvas option" where
  \<comment> \<open>the effect of \<open>Barcode\<close> on \<open>canvasRef.current\<close>; assigning the width clears the canvas\<close>
  "Barcode_effect canvasRef val height =
     (case canvasRef of
        None \<Rightarrow> None
      | Some c \<Rightarrow>
          if val = [] then Some c
          else
            (let code = keepDigits val;
                 barWidth = 2;
                 width = int (length code) * 11 * barWidth + 40;
                 ops = [FillRect ''#ffffff'' 0 0 width (height + 20)];
                 x = 20;
                 ops = ops @ [FillRect ''#000000'' x 0 barWidth height]; x = x + barWidth * 2;
                 ops = ops @ [FillRect ''#000000'' x 0 barWidth height]; x = x + barWidth * 2;
                 st = foldl (drawDigit barWidth height) (x, ops) code;
                 x = fst st; ops = snd st;
                 ops = ops @ [FillRect ''#000000'' x 0 barWidth height]; x = x + barWidth * 2;
                 ops = ops @ [FillRect ''#000000'' x 0 barWidth height];
                 ops = ops @ [FillText ''12px monospace'' val (width div 2) (height + 15)]
             in Some \<lparr>cwidth = width, cheight = height + 20, drawn = ops\<rparr>))"

definition blackBars :: "canvas \<Rightarrow> (int \<times> int) list" where
  \<comment> \<open>the bars of the symbol: left edge and width of every black rectangle, in drawing order\<close>
  "blackBars c =
     concat (map (\<lambda>d. case d of
                         FillRect col x y w h \<Rightarrow> if col = ''#000000'' then [(x, w)] else []
                       | FillText fnt t x y \<Rightarrow> []) (drawn c))"


section \<open>The DataMatrix and Code 128 components\<close>

text \<open>
  \<open>bwipjs.toCanvas\<close> belongs to an external library: it is a parameter, returning
  \<open>Inl\<close> with the message when it throws. The model records every call made to it.
\<close>

record bwip_options =
  bcid :: string
  text_opt :: string
  scale :: nat
  padding :: nat
  parsefnc :: bool
  includetext :: bool

record adapter_state =
  loaded :: bool
  errorFlag :: bool
  calls :: "bwip_options list"

datatype view = Placeholder string string | Loading | Canvas

definition DataMatrix_effect ::
  "(bwip_options \<Rightarrow> string + unit) \<Rightarrow> bool \<Rightarrow> string \<Rightarrow> string option \<Rightarrow> adapter_state \<Rightarrow> adapter_state" where
  \<comment> \<open>\<open>ready\<close> stands for \<open>canvasRef.current && window.bwipjs\<close>\<close>
  "DataMatrix_effect toCanvas ready val gs1Data st =
     (if \<not> loaded st \<or> \<not> ready then st
      else
        (let barcodeData = (case gs1Data of
                              Some g \<Rightarrow> if g \<noteq> [] then g else ''(01)'' @ val
                            | None \<Rightarrow> ''(01)'' @ val);
             o1 = \<lparr>bcid = ''datamatrix'', text_opt = barcodeData, scale = 4, padding = 5,
                   parsefnc = True, includetext = False\<rparr>
         in case toCanvas o1 of
              Inr u \<Rightarrow> st\<lparr>errorFlag := False, calls := calls st @ [o1]\<rparr>
            | Inl e \<Rightarrow>
                (let simpleData = keepDigits val;
                     o2 = \<lparr>bcid = ''datamatrix'', text_opt = simpleData, scale = 4, padding = 5,
                           parsefnc = False, includetext = False\<rparr>
                 in case toCanvas o2 of
                      Inr u \<Rightarrow> st\<lparr>errorFlag := False, calls := calls st @ [o1, o2]\<rparr>
                    | Inl e2 \<Rightarrow> st\<lparr>errorFlag := True, calls := calls st @ [o1, o2]\<rparr>)))"

definition DataMatrix_view :: "string \<Rightarrow> adapter_state \<Rightarrow> view" where
  "DataMatrix_view val st =
     (if errorFlag st then Placeholder ''GS1 2D DataMatrix'' val
      else if \<not> loaded st then Loading
      else Canvas)"

definition Code128_effect ::
  "(bwip_options \<Rightarrow> string + unit) \<Rightarrow> bool \<Rightarrow> string \<Rightarrow> adapter_state \<Rightarrow> adapter_state" where
  "Code128_effect toCanvas ready val st =
     (if \<not> loaded st \<or> \<not> ready then st
      else
        (let o1 = \<lparr>bcid = ''code128'', text_opt = val, scale = 2, padding = 5,
                   parsefnc = False, includetext = True\<rparr>
         in case toCanvas o1 of
              Inr u \<Rightarrow> st\<lparr>errorFlag := False, calls := calls st @ [o1]\<rparr>
            | Inl e \<Rightarrow> st\<lparr>errorFlag := True, calls := calls st @ [o1]\<rparr>))"

definition Code128_view :: "string \<Rightarrow> adapter_state \<Rightarrow> view" where
  "Code128_view val st =
     (if errorFlag st then Placeholder ''Code 128'' val
      else if \<not> loaded st then Loading
      else Canvas)"


section \<open>The element string, field by field\<close>

text \<open>
  The parts of \<open>buildGs1String\<close> under the names of its local constants, and the
  field table of the specification: the fields in their fixed order, each with its
  Application Identifier and its formatted value.
\<close>

definition gtinVal :: "'a formData_scheme \<Rightarrow> string" where
  \<comment> \<open>\<open>const gtin = formData.gtin || formData.sku.padStart(14, '0')\<close>\<close>
  "gtinVal f = (if gtin f \<noteq> [] then gtin f else padStart 14 ''0'' (sku f))"

definition dateStr :: "string \<Rightarrow> string" where
  \<comment> \<open>\<open>const dateStr = date.replace(/-/g, '').substring(2)\<close>\<close>
  "dateStr d = substring_from 2 (removeDashes d)"

definition weightNumber :: "string \<Rightarrow> jsnum" where
  \<comment> \<open>\<open>parseFloat(formData.weight) * 1000\<close>\<close>
  "weightNumber w = jsmul (parseFloat w) (Fin 1000)"

definition weightVal :: "string \<Rightarrow> string" where
  \<comment> \<open>\<open>const weightVal = (parseFloat(formData.weight) * 1000).toFixed(0).padStart(6, '0')\<close>\<close>
  "weightVal w = (case toFixed 0 (weightNumber w) of Inr t \<Rightarrow> padStart 6 ''0'' t | Inl e \<Rightarrow> [])"

datatype gs1_field =
  GTIN | ProductionDate | BestBeforeDate | SellByDate | ExpirationDate
| BatchLot | Serial | NetWeight

definition fieldOrder :: "gs1_field list" where
  "fieldOrder =
     [GTIN, ProductionDate, BestBeforeDate, SellByDate, ExpirationDate, BatchLot, Serial, NetWeight]"

fun fieldPresent :: "'a formData_scheme \<Rightarrow> gs1_field \<Rightarrow> bool" where
  "fieldPresent f GTIN = True"
| "fieldPresent f ProductionDate = (productionDate f \<noteq> [])"
| "fieldPresent f BestBeforeDate = (bestBeforeDate f \<noteq> [])"
| "fieldPresent f SellByDate = (sellByDate f \<noteq> [])"
| "fieldPresent f ExpirationDate = (expirationDate f \<noteq> [])"
| "fieldPresent f BatchLot = (batchLot f \<noteq> [])"
| "fieldPresent f Serial = (serialNumber f \<noteq> [])"
| "fieldPresent f NetWeight = (weight f \<noteq> [])"

fun fieldAI :: "'a formData_scheme \<Rightarrow> gs1_field \<Rightarrow> string" where
  "fieldAI f GTIN = ''01''"
| "fieldAI f ProductionDate = ''11''"
| "fieldAI f BestBeforeDate = ''15''"
| "fieldAI f SellByDate = ''16''"
| "fieldAI f ExpirationDate = ''17''"
| "fieldAI f BatchLot = ''10''"
| "fieldAI f Serial = ''21''"
| "fieldAI f NetWeight = (if weightUnit f = ''kg'' then ''3103'' else ''3203'')"

fun fieldValue :: "'a formData_scheme \<Rightarrow> gs1_field \<Rightarrow> string" where
  "fieldValue f GTIN = gtinVal f"
| "fieldValue f ProductionDate = dateStr (productionDate f)"
| "fieldValue f BestBeforeDate = dateStr (bestBeforeDate f)"
| "fieldValue f SellByDate = dateStr (sellByDate f)"
| "fieldValue f ExpirationDate = dateStr (expirationDate f)"
| "fieldValue f BatchLot = batchLot f"
| "fieldValue f Serial = serialNumber f"
| "fieldValue f NetWeight = weightVal (weight f)"

definition fieldSegment :: "'a formData_scheme \<Rightarrow> gs1_field \<Rightarrow> string" where
  \<comment> \<open>what one field adds: its tag and value when present, nothing when absent\<close>
  "fieldSegment f fld =
     (if fieldPresent f fld then ''('' @ fieldAI f fld @ '')'' @ fieldValue f fld else [])"

definition displayForm :: "'a formData_scheme \<Rightarrow> string" where
  \<comment> \<open>the display form of the specification: every present field, in the fixed order,
      as its AI in parentheses followed by its value\<close>
  "displayForm f =
     concat (map (\<lambda>fld. ''('' @ fieldAI f fld @ '')'' @ fieldValue f fld)
               (filter (fieldPresent f) fieldOrder))"

definition lastChars :: "nat \<Rightarrow> string \<Rightarrow> string" where
  \<comment> \<open>the last \<open>n\<close> characters of a text\<close>
  "lastChars n s = drop (length s - n) s"

definition isIsoDate :: "string \<Rightarrow> bool" where
  \<comment> \<open>the form \<open>YYYY-MM-DD\<close>: ten characters, digits around two dashes\<close>
  "isIsoDate d =
     (length d = 10 \<and> d ! 4 = CHR ''-'' \<and> d ! 7 = CHR ''-'' \<and>
      list_all (\<lambda>i. isDigit (d ! i)) [0, 1, 2, 3, 5, 6, 8, 9])"

definition emptyForm :: formData where
  \<comment> \<open>the initial state of the form\<close>
  "emptyForm =
     \<lparr>name = '''', sku = '''', uom = ''EA'', department = ''Custom_Items'',
      barcodeType = ''1D'', gtin = '''', batchLot = '''', expirationDate = '''',
      serialNumber = '''', sellByDate = '''', bestBeforeDate = '''', productionDate = '''',
      weight = '''', weightUnit = ''kg''\<rparr>"


definition dateFields :: "gs1_field list" where
  "dateFields = [ProductionDate, BestBeforeDate, SellByDate, ExpirationDate]"

fun dateInput :: "'a formData_scheme \<Rightarrow> gs1_field \<Rightarrow> string" where
  \<comment> \<open>the text of a date field as the form holds it\<close>
  "dateInput f ProductionDate = productionDate f"
| "dateInput f BestBeforeDate = bestBeforeDate f"
| "dateInput f SellByDate = sellByDate f"
| "dateInput f ExpirationDate = expirationDate f"
| "dateInput f fld = []"

definition milkForm :: formData where
  "milkForm =
     emptyForm\<lparr>name := ''Milk'', sku := ''00049000000443'', barcodeType := ''GS1 2D'',
       gtin := ''00049000000443'', sellByDate := ''2025-12-15''\<rparr>"


section \<open>The item state of the page\<close>

text \<open>
  The page keeps the custom items and the SKUs of the deleted catalog items in two
  lists. From them and from the built-in groups it builds, on every rendering, the
  merged groups, and their items are the existing items that both dialogs check a SKU
  against. A group carries the fields the code reads here: its id, its items and the
  flag of the custom group.
\<close>

record catalog_group =
  group_id :: string
  group_items :: "item list"
  group_isCustom :: bool

record items_state =
  customItems :: "item list"
  deletedItems :: "string list"

definition objectPrototypeKeys :: "string list" where
  \<comment> \<open>the property names every object literal inherits\<close>
  "objectPrototypeKeys =
     [''constructor'', ''__proto__'', ''hasOwnProperty'', ''isPrototypeOf'',
      ''propertyIsEnumerable'', ''toLocaleString'', ''toString'', ''valueOf'',
      ''__defineGetter__'', ''__defineSetter__'', ''__lookupGetter__'', ''__lookupSetter__'']"

definition deptOf :: "'a formData_scheme \<Rightarrow> string" where
  \<comment> \<open>\<open>item.department || 'Custom_Items'\<close>\<close>
  "deptOf i = (if department i \<noteq> [] then department i else ''Custom_Items'')"

definition customItemsByDept :: "item list \<Rightarrow> js_error + (string \<Rightarrow> item list)" where
  \<comment> \<open>the object built by \<open>customItems.reduce\<close>, as the list stored under each own key
      (empty when the key is absent). Under an inherited name \<open>acc[dept]\<close> is truthy and
      has no \<open>push\<close>, so the call raises.\<close>
  "customItemsByDept items =
     (if list_ex (\<lambda>i. deptOf i \<in> set objectPrototypeKeys) items then Inl TypeError
      else Inr (\<lambda>d. filter (\<lambda>i. deptOf i = d) items))"

definition allGroups :: "catalog_group list \<Rightarrow> items_state \<Rightarrow> catalog_group list" where
  \<comment> \<open>the catalog groups without the deleted SKUs\<close>
  "allGroups groups st =
     map (\<lambda>g. g\<lparr>group_items := filter (\<lambda>i. sku i \<notin> set (deletedItems st)) (group_items g)\<rparr>)
       groups"

definition withCustomGroup :: "(string \<Rightarrow> item list) \<Rightarrow> catalog_group list \<Rightarrow> catalog_group list" where
  \<comment> \<open>\<open>if (customItemsByDept['Custom_Items']?.length > 0) allGroups.unshift({...})\<close>\<close>
  "withCustomGroup byDept ag =
     (if byDept ''Custom_Items'' \<noteq> []
      then \<lparr>group_id = ''Custom_Items'', group_items = byDept ''Custom_Items'',
            group_isCustom = True\<rparr> # ag
      else ag)"

definition mergeGroup :: "(string \<Rightarrow> item list) \<Rightarrow> catalog_group \<Rightarrow> catalog_group" where
  \<comment> \<open>the function mapped over \<open>allGroups\<close> to give \<open>mergedGroups\<close>\<close>
  "mergeGroup byDept g =
     (if group_id g \<noteq> ''Custom_Items'' \<and> byDept (group_id g) \<noteq> []
      then g\<lparr>group_items :=
               group_items g @ map (\<lambda>i. i\<lparr>isCustom := True\<rparr>) (byDept (group_id g))\<rparr>
      else g)"

definition mergedGroups :: "catalog_group list \<Rightarrow> items_state \<Rightarrow> js_error + catalog_group list" where
  \<comment> \<open>looking up a group id that is an inherited name gives a value without \<open>map\<close>,
      so the call raises\<close>
  "mergedGroups groups st =
     (case customItemsByDept (customItems st) of
        Inl e \<Rightarrow> Inl e
      | Inr byDept \<Rightarrow>
          (let ag = withCustomGroup byDept (allGroups groups st)
           in if list_ex (\<lambda>g. group_id g \<noteq> ''Custom_Items'' \<and>
                               group_id g \<in> set objectPrototypeKeys) ag
              then Inl TypeError
              else Inr (map (mergeGroup byDept) ag)))"

definition allExistingItems :: "catalog_group list \<Rightarrow> items_state \<Rightarrow> js_error + item list" where
  \<comment> \<open>\<open>mergedGroups.flatMap(group => group.items)\<close>\<close>
  "allExistingItems groups st =
     (case mergedGroups groups st of
        Inl e \<Rightarrow> Inl e
      | Inr gs \<Rightarrow> Inr (concat (map group_items gs)))"

definition handleSaveItem :: "item option \<Rightarrow> item \<Rightarrow> items_state \<Rightarrow> items_state" where
  \<comment> \<open>\<open>editItem\<close> is the item being edited, \<open>None\<close> for a new item\<close>
  "handleSaveItem editItem it st =
     (case editItem of
        Some e \<Rightarrow>
          (if list_ex (\<lambda>i. item_id i = item_id it) (customItems st)
           then st\<lparr>customItems := map (\<lambda>i. if item_id i = item_id it then it else i) (customItems st)\<rparr>
           else
             (let newItem = it\<lparr>item_id := (case item_id it of
                                               Some i \<Rightarrow> if i \<noteq> [] then Some i else Some (sku it)
                                             | None \<Rightarrow> Some (sku it)),
                                isEdited := True\<rparr>;
                  st = st\<lparr>customItems := customItems st @ [newItem]\<rparr>
              in if sku e \<noteq> [] \<and> \<not> isCustom e \<and> \<not> isEdited e
                 then st\<lparr>deletedItems := deletedItems st @ [sku e]\<rparr> else st))
      | None \<Rightarrow> st\<lparr>customItems := customItems st @ [it\<lparr>isCustom := True\<rparr>]\<rparr>)"

definition handleDeleteItem :: "item \<Rightarrow> items_state \<Rightarrow> items_state" where
  "handleDeleteItem deleteItem st =
     (if isCustom deleteItem \<or> isEdited deleteItem
      then st\<lparr>customItems := filter (\<lambda>i. item_id i \<noteq> item_id deleteItem) (customItems st)\<rparr>
      else st\<lparr>deletedItems := deletedItems st @ [sku deleteItem]\<rparr>)"

text \<open>
  What the user does to the items: saving the form for a new item (with the clock
  reading that becomes the id), confirming an import right after its preview, deleting
  an item. Each dialog is handed the existing items of the current state.
\<close>

datatype event =
  SaveNew string formData
| ImportItems "item list"
| DeleteItem item

fun step :: "catalog_group list \<Rightarrow> event \<Rightarrow> items_state \<Rightarrow> js_error + items_state" where
  "step groups (SaveNew now f) st =
     (case allExistingItems groups st of
        Inl e \<Rightarrow> Inl e
      | Inr existingItems \<Rightarrow>
          (case handleSubmit now existingItems None f of
             Inl e \<Rightarrow> Inl e
           | Inr None \<Rightarrow> Inr st
           | Inr (Some it) \<Rightarrow> Inr (handleSaveItem None it st)))"
| "step groups (ImportItems items) st =
     (case allExistingItems groups st of
        Inl e \<Rightarrow> Inl e
      | Inr existingItems \<Rightarrow>
          (case snd (handleImport (handlePreview existingItems items)) of
             None \<Rightarrow> Inr st
           | Some its \<Rightarrow> Inr (st\<lparr>customItems := onImport its (customItems st)\<rparr>)))"
| "step groups (DeleteItem d) st = Inr (handleDeleteItem d st)"

fun run :: "catalog_group list \<Rightarrow> event list \<Rightarrow> items_state \<Rightarrow> js_error + items_state" where
  "run groups [] st = Inr st"
| "run groups (ev # evs) st =
     (case step groups ev st of Inl e \<Rightarrow> Inl e | Inr st' \<Rightarrow> run groups evs st')"






section \<open>Sample data and named parts for the statements\<close>

definition blankCanvas :: canvas where
  \<comment> \<open>a canvas element as the page creates it: 300 by 150, nothing drawn\<close>
  "blankCanvas = \<lparr>cwidth = 300, cheight = 150, drawn = []\<rparr>"

definition gs1Framed :: "string \<Rightarrow> string option \<Rightarrow> bwip_options" where
  \<comment> \<open>the options of the first attempt of \<open>DataMatrixBarcode\<close>\<close>
  "gs1Framed val gs1Data =
     \<lparr>bcid = ''datamatrix'',
      text_opt = (case gs1Data of Some g \<Rightarrow> if g \<noteq> [] then g else ''(01)'' @ val
                  | None \<Rightarrow> ''(01)'' @ val),
      scale = 4, padding = 5, parsefnc = True, includetext = False\<rparr>"

definition digitsOnly :: "string \<Rightarrow> bwip_options" where
  \<comment> \<open>the options of the retry of \<open>DataMatrixBarcode\<close>\<close>
  "digitsOnly val =
     \<lparr>bcid = ''datamatrix'', text_opt = keepDigits val, scale = 4, padding = 5,
      parsefnc = False, includetext = False\<rparr>"

definition failingRenderer :: "bwip_options \<Rightarrow> string + unit" where
  \<comment> \<open>a renderer that throws on every call\<close>
  "failingRenderer opts = Inl ''bad''"

definition freshAdapter :: adapter_state where
  "freshAdapter = \<lparr>loaded = True, errorFlag = False, calls = []\<rparr>"


definition importedItem :: "string \<Rightarrow> string \<Rightarrow> string \<Rightarrow> item" where
  \<comment> \<open>the object \<open>parseCSV\<close> builds for a row without unit and department columns\<close>
  "importedItem nm sk idv =
     \<lparr>name = nm, sku = sk, uom = ''EA'', department = ''Custom_Items'', barcodeType = ''1D'',
      gtin = '''', batchLot = '''', expirationDate = '''', serialNumber = '''', sellByDate = '''',
      bestBeforeDate = '''', productionDate = '''', weight = '''', weightUnit = '''',
      item_id = Some idv, gs1String = None, gs1Display = None, isCustom = False,
      isEdited = False\<rparr>"

definition catalogItem :: "string \<Rightarrow> string \<Rightarrow> item" where
  \<comment> \<open>a built-in catalog entry \<open>{ name, sku, uom: "EACH" }\<close>\<close>
  "catalogItem nm sk =
     \<lparr>name = nm, sku = sk, uom = ''EACH'', department = '''', barcodeType = '''',
      gtin = '''', batchLot = '''', expirationDate = '''', serialNumber = '''', sellByDate = '''',
      bestBeforeDate = '''', productionDate = '''', weight = '''', weightUnit = '''',
      item_id = None, gs1String = None, gs1Display = None, isCustom = False,
      isEdited = False\<rparr>"

definition sampleCatalog :: "item list" where
  "sampleCatalog = [catalogItem ''Water'' ''AB12'']"



definition heavyForm :: formData where
  \<comment> \<open>the weight text 1e18 is a valid value of the number input\<close>
  "heavyForm = emptyForm\<lparr>gtin := ''00012345678905'', weight := ''1e18''\<rparr>"

definition sampleGroups :: "catalog_group list" where
  "sampleGroups = [\<lparr>group_id = ''NO_TAX'', group_items = sampleCatalog, group_isCustom = False\<rparr>]"

definition freshState :: items_state where
  \<comment> \<open>empty local storage\<close>
  "freshState = \<lparr>customItems = [], deletedItems = []\<rparr>"


definition dairyBatch :: "item list" where
  \<comment> \<open>a row of an import whose department column names no group of the page\<close>
  "dairyBatch = [(importedItem ''Milk'' ''x9'' ''5'')\<lparr>department := ''Dairy''\<rparr>]"


section \<open>The builder returns the field segments in order\<close>

lemma toFixed0_ex: "\<exists>t. toFixed 0 x = Inr t"
  by (cases x) (simp_all add: toFixed_def Let_def)

lemma if_append: "(if c then g @ x else g) = g @ (if c then x else [])"
  by simp

lemma buildGs1String_segments:
  "buildGs1String f = Inr (concat (map (fieldSegment f) fieldOrder))"
proof -
  obtain t where t: "toFixed 0 (jsmul (parseFloat (weight f)) (Fin 1000)) = Inr t"
    using toFixed0_ex by blast
  then have wv: "padStart 6 ''0'' t = weightVal (weight f)"
    by (simp add: weightVal_def weightNumber_def)
  have "buildGs1String f =
      Inr (''(01)'' @ gtinVal f
        @ (if productionDate f \<noteq> [] then ''(11)'' @ dateStr (productionDate f) else [])
        @ (if bestBeforeDate f \<noteq> [] then ''(15)'' @ dateStr (bestBeforeDate f) else [])
        @ (if sellByDate f \<noteq> [] then ''(16)'' @ dateStr (sellByDate f) else [])
        @ (if expirationDate f \<noteq> [] then ''(17)'' @ dateStr (expirationDate f) else [])
        @ (if batchLot f \<noteq> [] then ''(10)'' @ batchLot f else [])
        @ (if serialNumber f \<noteq> [] then ''(21)'' @ serialNumber f else [])
        @ (if weight f \<noteq> []
           then ''('' @ (if weightUnit f = ''kg'' then ''310'' else ''320'') @ ''3)''
                @ weightVal (weight f)
           else []))"
    unfolding buildGs1String_def
    apply (simp only: if_append)
    apply (simp only: Let_def t sum.case)
    apply (cases "weight f = []")
     apply (simp_all add: gtinVal_def dateStr_def wv split del: if_split cong: if_cong)
    done
  also have "\<dots> = Inr (concat (map (fieldSegment f) fieldOrder))"
    by (simp add: fieldOrder_def fieldSegment_def)
  finally show ?thesis .
qed

lemma displayForm_segments: "displayForm f = concat (map (fieldSegment f) fieldOrder)"
  by (simp add: displayForm_def fieldSegment_def fieldOrder_def)

lemma emptyForm_sel:
  "name emptyForm = []" "sku emptyForm = []" "gtin emptyForm = []" "batchLot emptyForm = []"
  "expirationDate emptyForm = []" "serialNumber emptyForm = []" "sellByDate emptyForm = []"
  "bestBeforeDate emptyForm = []" "productionDate emptyForm = []" "weight emptyForm = []"
  "weightUnit emptyForm = ''kg''" "barcodeType emptyForm = ''1D''"
  by (simp_all add: emptyForm_def)

lemma padStart_zero: "padStart n ''0'' s = replicate (n - length s) (CHR ''0'') @ s"
  by (simp add: padStart_def)

text \<open>
  Claim C2. For every field set, the string that \<open>buildGs1String\<close> returns lists the
  present fields in the fixed order GTIN, production date, best-before date, sell-by
  date, expiration date, batch/lot, serial, net weight; each tag (the AI, which the
  code writes in parentheses) is immediately followed by the formatted value, and an
  absent optional field contributes nothing.
\<close>

theorem build_fixed_field_order:
  "buildGs1String f =
     Inr (concat (map (\<lambda>fld. ''('' @ fieldAI f fld @ '')'' @ fieldValue f fld)
                    (filter (fieldPresent f) fieldOrder)))"
  using buildGs1String_segments [of f] displayForm_segments [of f]
  by (simp add: displayForm_def)

theorem build_fixed_field_order_witness:
  "buildGs1String (emptyForm\<lparr>gtin := ''00049000000443'', batchLot := ''L7'',
       productionDate := ''2025-01-02''\<rparr>) = Inr ''(01)00049000000443(11)250102(10)L7''"
  using build_fixed_field_order [of "emptyForm\<lparr>gtin := ''00049000000443'', batchLot := ''L7'',
       productionDate := ''2025-01-02''\<rparr>"]
  by (simp add: emptyForm_sel fieldOrder_def gtinVal_def dateStr_def substring_from_def
        removeDashes_def)

text \<open>
  Claim C1, as the code has it. The form has one builder and no separate display step:
  \<open>buildGs1String\<close> already writes every AI in parentheses, and \<open>handleSubmit\<close> stores
  that same text both as \<open>gs1String\<close> and as \<open>gs1Display\<close>. For every form that passes
  validation with a GS1 barcode type, both stored strings are the display form: each
  present field, in the fixed order, as its AI in parentheses followed by its value.
\<close>

theorem handleSubmit_gs1_display:
  assumes "validate existingItems editItem f" and "isGs1Type f"
  shows "\<exists>it. handleSubmit now existingItems editItem f = Inr (Some it) \<and>
              gs1String it = Some (displayForm f) \<and> gs1Display it = Some (displayForm f)"
  using assms
  by (simp add: handleSubmit_def buildGs1String_segments displayForm_segments Let_def)

theorem handleSubmit_gs1_display_witness:
  "validate [] None milkForm \<and> isGs1Type milkForm \<and>
   (\<exists>it. handleSubmit ''1700000000000'' [] None milkForm = Inr (Some it) \<and>
         gs1String it = Some ''(01)00049000000443(16)251215'' \<and>
         gs1Display it = Some ''(01)00049000000443(16)251215'')"
proof -
  have v: "validate [] None milkForm"
    by (simp add: validate_def validate_errors_def checkDuplicate_def milkForm_def emptyForm_def
          trim_def isWhiteSpace_def Let_def)
  have g: "isGs1Type milkForm"
    by (simp add: isGs1Type_def milkForm_def emptyForm_def)
  have d: "displayForm milkForm = ''(01)00049000000443(16)251215''"
    by (simp add: displayForm_def fieldOrder_def milkForm_def emptyForm_def gtinVal_def
          dateStr_def substring_from_def removeDashes_def)
  show ?thesis
    using v g handleSubmit_gs1_display [OF v g, of "''1700000000000''"]
    by (simp add: d)
qed

text \<open>
  Claim C1 as stated fails: for the GTIN 00049000000443 with sell-by date 2025-12-15
  the builder returns the parenthesised text, not the bare element string
  010004900000044316251215.
\<close>

theorem build_milk_counterexample:
  "buildGs1String (emptyForm\<lparr>gtin := ''00049000000443'', sellByDate := ''2025-12-15''\<rparr>)
     = Inr ''(01)00049000000443(16)251215'' \<and>
   buildGs1String (emptyForm\<lparr>gtin := ''00049000000443'', sellByDate := ''2025-12-15''\<rparr>)
     \<noteq> Inr ''010004900000044316251215''"
  by (simp add: buildGs1String_segments emptyForm_sel fieldOrder_def fieldSegment_def gtinVal_def
        dateStr_def substring_from_def removeDashes_def)

text \<open>
  Claim C6. When the form holds no explicit GTIN, the GTIN field is the SKU padded on
  the left with the character 0 up to 14 characters, and that text follows the tag
  \<open>(01)\<close> at the head of the result. The SKU 123456 gives 00000000123456.
\<close>

theorem build_gtin_default:
  assumes "gtin f = []"
  shows "gtinVal f = replicate (14 - length (sku f)) (CHR ''0'') @ sku f \<and>
         (length (sku f) \<le> 14 \<longrightarrow> length (gtinVal f) = 14) \<and>
         buildGs1String f =
           Inr (''(01)'' @ replicate (14 - length (sku f)) (CHR ''0'') @ sku f @
                concat (map (fieldSegment f)
                  [ProductionDate, BestBeforeDate, SellByDate, ExpirationDate, BatchLot,
                   Serial, NetWeight]))"
  using assms
  by (simp add: buildGs1String_segments fieldOrder_def fieldSegment_def gtinVal_def padStart_zero)

theorem build_gtin_default_witness:
  "gtin (emptyForm\<lparr>sku := ''123456''\<rparr>) = [] \<and>
   gtinVal (emptyForm\<lparr>sku := ''123456''\<rparr>) = ''00000000123456'' \<and>
   buildGs1String (emptyForm\<lparr>sku := ''123456''\<rparr>) = Inr ''(01)00000000123456''"
proof -
  have h: "gtin (emptyForm\<lparr>sku := ''123456''\<rparr>) = []"
    by (simp add: emptyForm_sel)
  show ?thesis
    using h build_gtin_default [OF h]
    by (simp add: emptyForm_sel fieldSegment_def numeral_eq_Suc)
qed


section \<open>The weight field\<close>













text \<open>
  The weight text 1e18: it reads as \<open>10 ^ 18\<close>, the product with 1000 is the double
  \<open>10 ^ 21\<close>, and from there on \<open>toFixed\<close> returns the text of the number in exponent
  notation.
\<close>

lemma parseFloat_1e18: "parseFloat ''1e18'' = Fin 1000000000000000000"
  by code_simp

lemma roundDouble_1e21: "roundDouble 1000000000000000000000 = Fin 1000000000000000000000"
  by code_simp

lemma digits_1e21: "digitsOfInt 1000000000000000000000 = ''1000000000000000000000''"
  by code_simp

lemma candidates_1e21: "shortestCandidates 1000000000000000000000 22 1 = [1]"
  by code_simp

lemma upt_from_1: "[1..<18] = 1 # [2..<18]"
  by (simp add: upt_conv_Cons)

lemma digits_small: "digitsOfInt 1 = ''1''" "digitsOfInt 21 = ''21''"
  by code_simp+

lemma closest_1e21: "closestCandidate 1000000000000000000000 22 1 [1] = 1"
  by (simp add: closestCandidate_def)

lemma digit_count_1e21:
  "(case filter (\<lambda>k. shortestCandidates 1000000000000000000000 22 k \<noteq> []) [1..<18] of
      [] \<Rightarrow> 17 | k # _ \<Rightarrow> k) = 1"
  by (simp only: upt_from_1 filter.simps candidates_1e21) simp

lemma length_1e21: "length (digitsOfInt \<lfloor>1000000000000000000000 :: rat\<rfloor>) = 22"
  by (simp add: digits_1e21)

lemma numberToStringLarge_1e21: "numberToStringLarge 1000000000000000000000 = ''1e+21''"
  unfolding numberToStringLarge_def Let_def length_1e21 digit_count_1e21 candidates_1e21
    closest_1e21
  by (simp add: digits_small)

lemma toFixed_1e21: "toFixed 0 (Fin 1000000000000000000000) = Inr ''1e+21''"
  unfolding toFixed_def by (simp add: numberToStringLarge_1e21)

lemma weightVal_1e18: "weightVal ''1e18'' = ''01e+21''"
  unfolding weightVal_def weightNumber_def parseFloat_1e18
  by (simp add: roundDouble_1e21 toFixed_1e21 padStart_def)

lemma weightVal_PosInf: "parseFloat w = PosInf \<Longrightarrow> weightVal w = ''Infinity''"
  by (simp add: weightVal_def weightNumber_def toFixed_def padStart_def)

text \<open>
  Claim C7 as stated fails for some present weights. The weight 1e18 is a number, yet
  what follows the tag is \<open>01e+21\<close>, not the digits of the integer \<open>10 ^ 21\<close>; the weight
  text Infinity gives \<open>Infinity\<close> after the tag.
\<close>

theorem build_weight_counterexample:
  "weight heavyForm \<noteq> [] \<and>
   parseFloat (weight heavyForm) = Fin 1000000000000000000 \<and>
   buildGs1String heavyForm = Inr ''(01)00012345678905(3103)01e+21'' \<and>
   buildGs1String (heavyForm\<lparr>weight := ''Infinity''\<rparr>) = Inr ''(01)00012345678905(3103)Infinity''"
proof -
  have i: "parseFloat ''Infinity'' = PosInf"
    by code_simp
  have a: "weight heavyForm = ''1e18''"
    by (simp add: heavyForm_def)
  have b: "buildGs1String heavyForm = Inr ''(01)00012345678905(3103)01e+21''"
    by (simp add: buildGs1String_segments fieldOrder_def fieldSegment_def heavyForm_def
          emptyForm_sel gtinVal_def weightVal_1e18)
  have c: "buildGs1String (heavyForm\<lparr>weight := ''Infinity''\<rparr>) =
      Inr ''(01)00012345678905(3103)Infinity''"
    using i
    by (simp add: buildGs1String_segments fieldOrder_def fieldSegment_def heavyForm_def
          emptyForm_sel gtinVal_def weightVal_PosInf)
  show ?thesis
    using a b c parseFloat_1e18 by simp
qed


section \<open>The date fields\<close>

lemma isDigit_not_dash: "isDigit c \<Longrightarrow> c \<noteq> CHR ''-''"
  by (auto simp: isDigit_def Let_def)

lemma length10: "length d = 10 \<Longrightarrow> \<exists>a b c e f g h i j k. d = [a, b, c, e, f, g, h, i, j, k]"
  by (auto simp: numeral_eq_Suc length_Suc_conv)

lemma isoDate_dateStr:
  assumes "isIsoDate d"
  shows "dateStr d = [d ! 2, d ! 3, d ! 5, d ! 6, d ! 8, d ! 9]"
    and "dateStr d = lastChars 6 (removeDashes d)"
    and "length (dateStr d) = 6"
proof -
  from assms have "length d = 10" by (simp add: isIsoDate_def)
  from length10 [OF this] obtain a b c e f g h i j k
    where d: "d = [a, b, c, e, f, g, h, i, j, k]"
    by (elim exE)
  from assms d have nd: "a \<noteq> CHR ''-''" "b \<noteq> CHR ''-''" "c \<noteq> CHR ''-''" "e \<noteq> CHR ''-''"
      "g \<noteq> CHR ''-''" "h \<noteq> CHR ''-''" "j \<noteq> CHR ''-''" "k \<noteq> CHR ''-''"
    and dd: "f = CHR ''-''" "i = CHR ''-''"
    by (auto simp: isIsoDate_def dest: isDigit_not_dash)
  have r: "removeDashes d = [a, b, c, e, g, h, j, k]"
    using nd dd by (simp add: d removeDashes_def)
  show "dateStr d = [d ! 2, d ! 3, d ! 5, d ! 6, d ! 8, d ! 9]"
    by (simp add: dateStr_def r substring_from_def) (simp add: d)
  show "dateStr d = lastChars 6 (removeDashes d)"
    by (simp add: dateStr_def r substring_from_def lastChars_def)
  show "length (dateStr d) = 6"
    by (simp add: dateStr_def r substring_from_def)
qed

text \<open>
  Claim C8. For each of the four date fields (AIs 11, 15, 16, 17) whose text has the
  form YYYY-MM-DD, the builder emits, after the field's tag, the text with its dashes
  removed cut to its last six characters: the six characters YYMMDD, the century
  digits dropped.
\<close>

theorem build_iso_dates:
  assumes "fld \<in> set dateFields" and "isIsoDate (dateInput f fld)"
  shows "buildGs1String f =
           Inr (concat (map (fieldSegment f) (takeWhile (\<lambda>x. x \<noteq> fld) fieldOrder)) @
                ''('' @ fieldAI f fld @ '')'' @
                lastChars 6 (removeDashes (dateInput f fld)) @
                concat (map (fieldSegment f) (tl (dropWhile (\<lambda>x. x \<noteq> fld) fieldOrder)))) \<and>
         length (lastChars 6 (removeDashes (dateInput f fld))) = 6 \<and>
         lastChars 6 (removeDashes (dateInput f fld)) =
           [dateInput f fld ! 2, dateInput f fld ! 3, dateInput f fld ! 5,
            dateInput f fld ! 6, dateInput f fld ! 8, dateInput f fld ! 9] \<and>
         map (fieldAI f) dateFields = [''11'', ''15'', ''16'', ''17'']"
proof -
  have ne: "dateInput f fld \<noteq> []"
    using assms(2) by (auto simp: isIsoDate_def)
  have fv: "fieldValue f fld = dateStr (dateInput f fld)" and pr: "fieldPresent f fld"
    using assms(1) ne by (auto simp: dateFields_def)
  have seg: "fieldSegment f fld =
      ''('' @ fieldAI f fld @ '')'' @ lastChars 6 (removeDashes (dateInput f fld))"
    using isoDate_dateStr(2) [OF assms(2)] by (simp add: fieldSegment_def fv pr)
  have split: "concat (map (fieldSegment f) fieldOrder) =
      concat (map (fieldSegment f) (takeWhile (\<lambda>x. x \<noteq> fld) fieldOrder)) @
      fieldSegment f fld @
      concat (map (fieldSegment f) (tl (dropWhile (\<lambda>x. x \<noteq> fld) fieldOrder)))"
    using assms(1) by (auto simp: dateFields_def fieldOrder_def)
  have "buildGs1String f =
           Inr (concat (map (fieldSegment f) (takeWhile (\<lambda>x. x \<noteq> fld) fieldOrder)) @
                ''('' @ fieldAI f fld @ '')'' @
                lastChars 6 (removeDashes (dateInput f fld)) @
                concat (map (fieldSegment f) (tl (dropWhile (\<lambda>x. x \<noteq> fld) fieldOrder))))"
    using split by (simp add: buildGs1String_segments seg)
  moreover have "length (lastChars 6 (removeDashes (dateInput f fld))) = 6"
    using isoDate_dateStr [OF assms(2)] by simp
  moreover have "lastChars 6 (removeDashes (dateInput f fld)) =
           [dateInput f fld ! 2, dateInput f fld ! 3, dateInput f fld ! 5,
            dateInput f fld ! 6, dateInput f fld ! 8, dateInput f fld ! 9]"
    using isoDate_dateStr [OF assms(2)] by simp
  moreover have "map (fieldAI f) dateFields = [''11'', ''15'', ''16'', ''17'']"
    by (simp add: dateFields_def)
  ultimately show ?thesis by blast
qed

theorem build_iso_dates_witness:
  "SellByDate \<in> set dateFields \<and>
   isIsoDate (dateInput (emptyForm\<lparr>gtin := ''00049000000443'', sellByDate := ''2026-03-15''\<rparr>) SellByDate) \<and>
   buildGs1String (emptyForm\<lparr>gtin := ''00049000000443'', sellByDate := ''2026-03-15''\<rparr>)
     = Inr ''(01)00049000000443(16)260315''"
proof -
  have h1: "SellByDate \<in> set dateFields"
    by (simp add: dateFields_def)
  have h2: "isIsoDate (dateInput (emptyForm\<lparr>gtin := ''00049000000443'', sellByDate := ''2026-03-15''\<rparr>) SellByDate)"
    by (simp add: isIsoDate_def isDigit_def)
  show ?thesis
    using h1 h2 build_iso_dates [OF h1 h2]
    by (simp add: fieldOrder_def fieldSegment_def emptyForm_sel gtinVal_def)
qed


section \<open>The builder never raises\<close>

lemma dateStr_truncates: "\<exists>p. length p \<le> 2 \<and> removeDashes d = p @ dateStr d"
  by (rule exI [of _ "take 2 (removeDashes d)"]) (simp add: dateStr_def substring_from_def)

lemma weightVal_NaN: "parseFloat w = NaN \<Longrightarrow> weightVal w = ''000NaN''"
  by (simp add: weightVal_def weightNumber_def toFixed_def padStart_def numeral_eq_Suc)

text \<open>
  Claim C9, as the code has it. The builder never raises: for every form (all fields
  are strings) it returns a string. An absent optional field is omitted, and a date
  is cut short (its dash-free text loses at most its first two characters, whatever
  its form). A malformed weight is neither omitted nor cut short: a weight text that
  is not a number is emitted after its tag as \<open>000NaN\<close>.
\<close>

theorem build_total:
  "(\<exists>s. buildGs1String f = Inr s) \<and>
   buildGs1String f = Inr (concat (map (fieldSegment f) fieldOrder)) \<and>
   (\<forall>fld. \<not> fieldPresent f fld \<longrightarrow> fieldSegment f fld = []) \<and>
   (\<forall>d. \<exists>p. length p \<le> 2 \<and> removeDashes d = p @ dateStr d) \<and>
   (weight f \<noteq> [] \<longrightarrow> parseFloat (weight f) = NaN \<longrightarrow>
      fieldSegment f NetWeight = ''('' @ fieldAI f NetWeight @ '')000NaN'')"
  using dateStr_truncates
  by (simp add: buildGs1String_segments fieldSegment_def weightVal_NaN)

theorem build_total_witness:
  "weight (emptyForm\<lparr>sku := ''77'', expirationDate := ''2025'', weight := ''n/a'',
             weightUnit := ''lb''\<rparr>) \<noteq> [] \<and>
   parseFloat ''n/a'' = NaN \<and>
   buildGs1String (emptyForm\<lparr>sku := ''77'', expirationDate := ''2025'', weight := ''n/a'',
                     weightUnit := ''lb''\<rparr>)
     = Inr ''(01)00000000000077(17)25(3203)000NaN''"
proof -
  have n: "parseFloat ''n/a'' = NaN"
    by code_simp
  show ?thesis
    using n build_total [of "emptyForm\<lparr>sku := ''77'', expirationDate := ''2025'',
                               weight := ''n/a'', weightUnit := ''lb''\<rparr>"]
    by (simp add: fieldOrder_def fieldSegment_def emptyForm_sel gtinVal_def dateStr_def
          substring_from_def removeDashes_def padStart_zero numeral_eq_Suc)
qed

text \<open>
  Claim C9 as stated fails where it says that a malformed field is omitted or cut
  short: the weight text abc is kept in the result as \<open>000NaN\<close>.
\<close>

theorem build_malformed_weight_counterexample:
  "buildGs1String (emptyForm\<lparr>gtin := ''00012345678905'', weight := ''abc''\<rparr>)
     = Inr ''(01)00012345678905(3103)000NaN''"
proof -
  have "parseFloat ''abc'' = NaN"
    by code_simp
  then show ?thesis
    by (simp add: buildGs1String_segments fieldOrder_def fieldSegment_def emptyForm_sel
          gtinVal_def weightVal_NaN)
qed


section \<open>The linear barcode\<close>

lemma isDigit_cases: "isDigit c \<Longrightarrow> c \<in> set ''0123456789''"
proof -
  assume a: "isDigit c"
  define n where "n = (of_char c :: nat)"
  from a have "n = 48 \<or> n = 49 \<or> n = 50 \<or> n = 51 \<or> n = 52 \<or> n = 53 \<or> n = 54 \<or> n = 55
      \<or> n = 56 \<or> n = 57"
    unfolding isDigit_def Let_def n_def [symmetric] by arith
  then have "n \<in> (of_char :: char \<Rightarrow> nat) ` set ''0123456789''"
    by auto
  then obtain d where "d \<in> set ''0123456789''" and "(of_char d :: nat) = of_char c"
    unfolding n_def by (auto simp del: set_simps)
  then show ?thesis
    by (simp only: of_char_eq_iff)
qed

lemma digit_has_pattern: "isDigit c \<Longrightarrow> patterns c \<noteq> None"
  by (drule isDigit_cases) (auto simp: patterns_def)

text \<open>
  Claim C3, as the code has it. The encoder never raises. For the empty value the
  effect returns at its first line and leaves the canvas as it was: nothing is drawn.
  For a value that is not empty but holds no digit it draws a symbol 40 units wide
  that consists of the two start bars and the two end bars only. The pattern of the
  digit 0 is never used as a fallback: every character left after stripping is a
  digit with a pattern of its own.
\<close>

theorem Barcode_empty_or_digitless:
  "Barcode_effect (Some c) [] h = Some c \<and>
   (val \<noteq> [] \<longrightarrow> keepDigits val = [] \<longrightarrow>
      (\<exists>c'. Barcode_effect (Some c) val h = Some c' \<and> cwidth c' = 40 \<and> cheight c' = h + 20 \<and>
            blackBars c' = [(20, 2), (24, 2), (28, 2), (32, 2)])) \<and>
   (\<forall>ch \<in> set (keepDigits v). patterns ch \<noteq> None)"
  by (auto simp: Barcode_effect_def Let_def blackBars_def keepDigits_def digit_has_pattern)

theorem Barcode_empty_or_digitless_witness:
  "''abc'' \<noteq> [] \<and> keepDigits ''abc'' = [] \<and>
   Barcode_effect (Some blankCanvas) [] 60 = Some blankCanvas \<and>
   (\<exists>c'. Barcode_effect (Some blankCanvas) ''abc'' 60 = Some c' \<and> cwidth c' = 40 \<and>
         blackBars c' = [(20, 2), (24, 2), (28, 2), (32, 2)]) \<and>
   keepDigits ''a7'' = ''7'' \<and> patterns (CHR ''7'') \<noteq> None"
proof -
  have k: "keepDigits ''abc'' = []"
    by (simp add: keepDigits_def isDigit_def)
  have k7: "keepDigits ''a7'' = ''7''"
    by (simp add: keepDigits_def isDigit_def)
  show ?thesis
    using k k7 Barcode_empty_or_digitless [of blankCanvas 60 "''abc''" "''a7''"]
    by auto
qed

text \<open>
  Claim C3 as stated fails: the empty value on a fresh canvas leaves it untouched, so
  no symbol is rendered, neither guard bars nor the bars of the digit 0.
\<close>

theorem Barcode_empty_counterexample:
  "Barcode_effect (Some blankCanvas) [] 60 = Some blankCanvas \<and>
   drawn blankCanvas = [] \<and> blackBars blankCanvas = []"
  by (simp add: Barcode_effect_def blankCanvas_def blackBars_def)

text \<open>
  Claim C4, as the code has it. For every value that is not empty, the canvas width
  is set to the number of digits of the value times 11 times the bar width 2, plus
  the margin 40, and the canvas height to the bar height plus 20 for the text. Eleven
  digits give the width 282.
\<close>

theorem Barcode_width_formula:
  assumes "val \<noteq> []"
  shows "\<exists>c'. Barcode_effect (Some c) val h = Some c' \<and>
              cwidth c' = int (length (keepDigits val)) * 11 * 2 + 40 \<and>
              cheight c' = h + 20"
  using assms by (simp add: Barcode_effect_def Let_def)

theorem Barcode_width_formula_witness:
  "''05100006007'' \<noteq> [] \<and>
   (\<exists>c'. Barcode_effect (Some blankCanvas) ''05100006007'' 60 = Some c' \<and>
         cwidth c' = 282 \<and> cheight c' = 80)"
proof -
  have h: "''05100006007'' \<noteq> []" by simp
  have k: "keepDigits ''05100006007'' = ''05100006007''"
    by (simp add: keepDigits_def isDigit_def)
  show ?thesis
    using Barcode_width_formula [OF h, of blankCanvas 60] by (simp add: k)
qed

text \<open>
  Claim C4 as stated fails at the empty value: the effect returns before it sets the
  size, so a fresh canvas keeps its 300 by 150 where the formula gives the width 40.
\<close>

theorem Barcode_width_counterexample:
  "map_option cwidth (Barcode_effect (Some blankCanvas) [] 60) = Some 300 \<and>
   map_option cheight (Barcode_effect (Some blankCanvas) [] 60) = Some 150 \<and>
   int (length (keepDigits [])) * 11 * 2 + 40 = 40"
  by (simp add: Barcode_effect_def blankCanvas_def keepDigits_def)


section \<open>The two-tier fallback of the DataMatrix component\<close>

text \<open>
  Claim C5. When the first, GS1-framed render of the DataMatrix component raises, the
  component calls the renderer exactly once more, with the digits of its value as the
  text and without the GS1 option; whether or not that second call raises, no further
  call is made. The error flag is set exactly when the second call raises too, and
  the component then shows the placeholder with the symbology name and the value.
\<close>

theorem DataMatrix_two_tier_fallback:
  assumes "loaded st" and "ready" and "toCanvas (gs1Framed val gs1Data) = Inl e"
  shows "calls (DataMatrix_effect toCanvas ready val gs1Data st) =
           calls st @ [gs1Framed val gs1Data, digitsOnly val] \<and>
         text_opt (digitsOnly val) = keepDigits val \<and> \<not> parsefnc (digitsOnly val) \<and>
         parsefnc (gs1Framed val gs1Data) \<and>
         (errorFlag (DataMatrix_effect toCanvas ready val gs1Data st) =
            (\<exists>e2. toCanvas (digitsOnly val) = Inl e2)) \<and>
         (errorFlag (DataMatrix_effect toCanvas ready val gs1Data st) \<longrightarrow>
            DataMatrix_view val (DataMatrix_effect toCanvas ready val gs1Data st) =
              Placeholder ''GS1 2D DataMatrix'' val)"
  using assms
  by (auto simp: DataMatrix_effect_def DataMatrix_view_def gs1Framed_def digitsOnly_def Let_def
        split: sum.splits option.splits)

theorem DataMatrix_two_tier_fallback_witness:
  "loaded freshAdapter \<and> failingRenderer (gs1Framed ''49-000/44'' None) = Inl ''bad'' \<and>
   map text_opt (calls (DataMatrix_effect failingRenderer True ''49-000/44'' None freshAdapter))
     = [''(01)49-000/44'', ''4900044''] \<and>
   DataMatrix_view ''49-000/44'' (DataMatrix_effect failingRenderer True ''49-000/44'' None freshAdapter)
     = Placeholder ''GS1 2D DataMatrix'' ''49-000/44''"
proof -
  have h1: "loaded freshAdapter" by (simp add: freshAdapter_def)
  have h3: "failingRenderer (gs1Framed ''49-000/44'' None) = Inl ''bad''" by (simp add: failingRenderer_def)
  have k: "keepDigits ''49-000/44'' = ''4900044''"
    by (simp add: keepDigits_def isDigit_def)
  show ?thesis
    using h1 h3 DataMatrix_two_tier_fallback
            [of freshAdapter True failingRenderer "''49-000/44''" None "''bad''"]
    by (simp add: k gs1Framed_def digitsOnly_def freshAdapter_def failingRenderer_def)
qed

text \<open>
  The Code 128 component, for comparison, makes a single attempt and has no retry; on
  failure it shows its own placeholder.
\<close>

lemma Code128_single_attempt:
  assumes "loaded st" and "ready"
  shows "length (calls (Code128_effect toCanvas ready val st)) = Suc (length (calls st)) \<and>
         (errorFlag (Code128_effect toCanvas ready val st) \<longrightarrow>
            Code128_view val (Code128_effect toCanvas ready val st) =
              Placeholder ''Code 128'' val)"
  using assms
  by (auto simp: Code128_effect_def Code128_view_def Let_def split: sum.splits)


section \<open>Duplicate SKUs\<close>

lemma find_not_None: "(find P xs \<noteq> None) = (\<exists>x \<in> set xs. P x)"
  by (simp add: find_None_iff) blast






















lemma sku_flag: "sku (i\<lparr>isCustom := True\<rparr>) = sku i"
  by simp




















text \<open>
  Outside the departments the page shows, the check does not see the custom items: an
  imported row whose department is no group of the page is stored, and the same row
  imported again is stored again.
\<close>

lemma import_unknown_department_unchecked:
  "(case run sampleGroups [ImportItems dairyBatch, ImportItems dairyBatch] freshState of
      Inr st \<Rightarrow> map sku (customItems st) | Inl e \<Rightarrow> []) = [''x9'', ''x9'']"
  by code_simp



end
